theory Spec2Isabelle
  imports Main "HOL-Library.AList" "HOL-Library.Sublist"
begin

section \<open>Paths, files and observable effects\<close>

text \<open>
  The install tool (\<^verbatim>\<open>installtool.py\<close>) works on \<^verbatim>\<open>pathlib.Path\<close> values. A path is
  modelled by its list of components, absolute or relative; components are plain names
  (\<^verbatim>\<open>find_rpms\<close> hands out resolved paths, which hold no \<^verbatim>\<open>.\<close>, no \<^verbatim>\<open>..\<close> and no
  symbolic link). The file system maps the components of an absolute path to a node.
  A Python string is modelled by its characters, code points below 256. A file's
  content is its sequence of bytes: binary mode reads the bytes as they are, text mode
  decodes them first, with the encoding of the locale, and then translates newlines.
\<close>

datatype path = Abs "string list" | Rel "string list"

datatype node = File string | Dir

type_synonym filesystem = "string list \<Rightarrow> node option"

fun components :: "path \<Rightarrow> string list" where
  "components (Abs cs) = cs"
| "components (Rel cs) = cs"

text \<open>\<^verbatim>\<open>p.name\<close>: the final component, the empty string when there is none.\<close>

definition path_name :: "path \<Rightarrow> string" where
  "path_name p = (if components p = [] then [] else last (components p))"

text \<open>\<^verbatim>\<open>pathlib.Path(s)\<close> for a string \<^verbatim>\<open>s\<close> without separator, as \<^verbatim>\<open>p.name\<close> is.\<close>

definition Path :: "string \<Rightarrow> path" where
  "Path s = Rel (if s = [] then [] else [s])"

text \<open>\<^verbatim>\<open>p.resolve()\<close>: a relative path is taken from the current working directory.\<close>

fun resolve :: "string list \<Rightarrow> path \<Rightarrow> string list" where
  "resolve cwd (Abs cs) = cs"
| "resolve cwd (Rel cs) = cwd @ cs"

datatype error =
    AssertionError string "string list"
  | IsADirectoryError "string list"
  | IndexError
  | UnicodeDecodeError
  | EOFError
  | SSHException

text \<open>
  What the tool prints, one constructor for each \<^verbatim>\<open>print\<close> of the functions modelled,
  carrying the values the message is formatted from.
\<close>

datatype msg =
    ManifestNotFound path
      \<comment> \<open>\<^verbatim>\<open>I couldn't find the file {md5_file} on disk. ...\<close>\<close>
  | FoundHashes nat
      \<comment> \<open>\<^verbatim>\<open>Ok! I found {len(hashes)} md5sums in the build output. ...\<close>\<close>
  | NotInManifest string
      \<comment> \<open>\<^verbatim>\<open>- [X] {rpm} was not in md5.txt. I can't verify that hash.\<close>\<close>
  | CheckFailed string string string
      \<comment> \<open>\<^verbatim>\<open>- [X] {rpm} failed the check! Expected {hashes[rpm]} but I found ... {md5}.\<close>\<close>
  | Matches string
      \<comment> \<open>\<^verbatim>\<open>- {rpm} matches my hash calculation.\<close>\<close>
  | AssignedRCC string
  | AssignedDCC string
  | AssignedBCC string
      \<comment> \<open>\<^verbatim>\<open>{name} is assigned to RCC.\<close> (DCC, BCC)\<close>
  | NotSure string
      \<comment> \<open>\<^verbatim>\<open>I'm not sure where {name} should go. ...\<close>\<close>
  | WrongCount string nat nat
      \<comment> \<open>\<^verbatim>\<open>Something seems wrong with the RCC packages. I found {..} but was expecting {..}.\<close>\<close>
  | InvalidChoice
      \<comment> \<open>\<^verbatim>\<open>Invalid choice. Enter y/Y or n/N.\<close>\<close>
  | RunningCommand string
      \<comment> \<open>\<^verbatim>\<open>Running SSH command '{command}'.\<close>\<close>
  | Output "string list"
  | ErrorStream "string list"
  | ExitCode int
      \<comment> \<open>\<^verbatim>\<open>  - Output: ..\<close>, \<^verbatim>\<open>  - Error Stream: ..\<close>, \<^verbatim>\<open>  - Exit Code: ..\<close>\<close>
  | SendingFiles "path list"
  | SentFiles
  | ErrorSending
      \<comment> \<open>\<^verbatim>\<open>Sending files to ..\<close>, \<^verbatim>\<open>Sent files successfully.\<close>, \<^verbatim>\<open>Error sending files: ..\<close>\<close>
  | Uploading nat string
      \<comment> \<open>\<^verbatim>\<open>Uploading {len(rpms)} files to {upload_dir}...\<close>\<close>
  | ThatDidntWork
      \<comment> \<open>\<^verbatim>\<open>That didn't work. You may have a partial installation - ...\<close>\<close>
  | Installing string
      \<comment> \<open>\<^verbatim>\<open>Installing {remote}...\<close>\<close>
  | InstallComplete
      \<comment> \<open>\<^verbatim>\<open>Great, install complete! Your deployment is finished.\<close>\<close>

text \<open>
  The effects of a run, in the order they happen: what is printed, which file
  \<^verbatim>\<open>open\<close> is called on, which prompt \<^verbatim>\<open>input\<close> shows, and the calls made on the SSH
  client, on the standard input of a remote command (a paramiko channel file, which
  offers \<^verbatim>\<open>write\<close>, \<^verbatim>\<open>flush\<close> and \<^verbatim>\<open>close\<close>) and on the SCP client.
\<close>

datatype event =
    Print msg
  | Open "string list"
  | Input string
  | Connect string string string nat
  | Exec string
  | StdinWrite string
  | StdinFlush
  | StdinClose
  | RecvExitStatus
  | Put "path list" string bool

section \<open>Checksum verification\<close>

subsection \<open>\<^verbatim>\<open>calc_md5\<close>\<close>

text \<open>
  \<^verbatim>\<open>hashlib.md5\<close> is a parameter: \<open>md5\<close> maps the bytes fed to the accumulator to the
  hexadecimal digest. The file is fed in chunks of 8192 bytes until a read returns
  nothing.
\<close>

function feed_chunks :: "string \<Rightarrow> string \<Rightarrow> string" where
  "feed_chunks acc rest =
     (if take 8192 rest = [] then acc
      else feed_chunks (acc @ take 8192 rest) (drop 8192 rest))"
  by pat_completeness auto
termination
  by (relation "measure (\<lambda>(acc, rest). length rest)") auto

definition calc_md5 ::
  "(string \<Rightarrow> string) \<Rightarrow> filesystem \<Rightarrow> string list \<Rightarrow> path \<Rightarrow> (error + string) \<times> event list"
where
  "calc_md5 md5 fs cwd p =
     (let ap = resolve cwd p in
      case fs ap of
        None \<Rightarrow> (Inl (AssertionError ''md5sum requested for nonexistent path'' ap), [])
      | Some Dir \<Rightarrow> (Inl (IsADirectoryError ap), [Open ap])
      | Some (File content) \<Rightarrow> (Inr (md5 (feed_chunks [] content)), [Open ap]))"

subsection \<open>\<^verbatim>\<open>read_md5_file\<close>\<close>

text \<open>
  Text mode. \<^verbatim>\<open>open(path, "r")\<close> names no encoding, so the bytes are decoded with the
  preferred encoding of the locale. The codec is a parameter: \<open>decode\<close> maps the bytes of
  a file to its characters, and to \<open>None\<close> where the codec raises
  \<^verbatim>\<open>UnicodeDecodeError\<close>. Strings hold code points below 256, so a codec is
  represented on the files whose text stays in that range. In the decoded text
  \<^verbatim>\<open>\r\n\<close> and a lone \<^verbatim>\<open>\r\<close> are read as \<^verbatim>\<open>\n\<close>.
\<close>

fun universal_newlines :: "string \<Rightarrow> string" where
  "universal_newlines [] = []"
| "universal_newlines [c] = (if c = CHR 0x0D then [CHR 0x0A] else [c])"
| "universal_newlines (c # d # cs) =
     (if c = CHR 0x0D \<and> d = CHR 0x0A then CHR 0x0A # universal_newlines cs
      else if c = CHR 0x0D then CHR 0x0A # universal_newlines (d # cs)
      else c # universal_newlines (d # cs))"

text \<open>\<^verbatim>\<open>f.readlines()\<close>: every line keeps its newline; the last one may have none.\<close>

fun readlines :: "string \<Rightarrow> string list" where
  "readlines [] = []"
| "readlines (c # cs) =
     (if c = CHR 0x0A then [c] # readlines cs
      else (case readlines cs of [] \<Rightarrow> [[c]] | l # ls \<Rightarrow> (c # l) # ls))"

text \<open>\<^verbatim>\<open>str.isspace\<close> on one character, and \<^verbatim>\<open>str.strip()\<close>.\<close>

definition isspace :: "char \<Rightarrow> bool" where
  "isspace c = (of_char c \<in> {9::nat, 10, 11, 12, 13, 28, 29, 30, 31, 32, 133, 160})"

definition strip :: "string \<Rightarrow> string" where
  "strip s = rev (dropWhile isspace (rev (dropWhile isspace s)))"

text \<open>\<^verbatim>\<open>s.replace('|', '')\<close>.\<close>

definition remove_pipes :: "string \<Rightarrow> string" where
  "remove_pipes s = filter (\<lambda>c. c \<noteq> CHR ''|'') s"

text \<open>
  \<^verbatim>\<open>s.split(' ')\<close>: the separator is one space; two spaces in a row enclose an empty
  field, and the empty string gives one empty field.
\<close>

fun split_space :: "string \<Rightarrow> string list" where
  "split_space [] = [[]]"
| "split_space (c # cs) =
     (if c = CHR '' '' then [] # split_space cs
      else (case split_space cs of [] \<Rightarrow> [[c]] | f # fs \<Rightarrow> (c # f) # fs))"

text \<open>
  The test of one line, \<^verbatim>\<open>line[0] != '|' or line[-2] != '|'\<close>: \<open>Inr True\<close> when the line
  is skipped. \<^verbatim>\<open>line[-2]\<close> is read only when the first character is a pipe, and raises
  on a line of one character.
\<close>

definition skip_line :: "string \<Rightarrow> error + bool" where
  "skip_line line =
     (case line of
        [] \<Rightarrow> Inl IndexError
      | c # cs \<Rightarrow>
          if c \<noteq> CHR ''|'' then Inr True
          else if length line < 2 then Inl IndexError
          else Inr (line ! (length line - 2) \<noteq> CHR ''|''))"

text \<open>
  The loop over the lines; \<open>hashes\<close> is the dictionary, in insertion order.
  \<^verbatim>\<open>hashes[row[2]] = row[0]\<close> raises when the row has fewer than three fields.
\<close>

fun read_lines :: "(string \<times> string) list \<Rightarrow> string list \<Rightarrow> error + (string \<times> string) list" where
  "read_lines hashes [] = Inr hashes"
| "read_lines hashes (line # lines) =
     (case skip_line line of
        Inl e \<Rightarrow> Inl e
      | Inr True \<Rightarrow> read_lines hashes lines
      | Inr False \<Rightarrow>
          (let row = split_space (strip (remove_pipes line)) in
           if length row < 3 then Inl IndexError
           else read_lines (AList.update (row ! 2) (row ! 0) hashes) lines))"

definition read_md5_file ::
  "(string \<Rightarrow> string option) \<Rightarrow> filesystem \<Rightarrow> string list \<Rightarrow> path \<Rightarrow>
   (error + (string \<times> string) list) \<times> event list"
where
  "read_md5_file decode fs cwd p =
     (let ap = resolve cwd p in
      case fs ap of
        None \<Rightarrow> (Inl (AssertionError ''md5sum read requested for nonexistent path'' ap), [])
      | Some Dir \<Rightarrow> (Inl (IsADirectoryError ap), [Open ap])
      | Some (File content) \<Rightarrow>
          (case decode content of
             None \<Rightarrow> (Inl UnicodeDecodeError, [Open ap])
           | Some decoded \<Rightarrow>
               (read_lines [] (readlines (universal_newlines decoded)), [Open ap])))"

subsection \<open>\<^verbatim>\<open>verify_md5s\<close>\<close>

text \<open>
  The loop over the artifacts, with the value of \<^verbatim>\<open>passed\<close> so far. An exception of
  \<^verbatim>\<open>calc_md5\<close> is not caught here: it ends the loop.
\<close>

fun verify_loop ::
  "(string \<Rightarrow> string) \<Rightarrow> filesystem \<Rightarrow> string list \<Rightarrow> (string \<times> string) list \<Rightarrow>
   path list \<Rightarrow> bool \<Rightarrow> (error + bool) \<times> event list"
where
  "verify_loop md5 fs cwd hashes [] passed = (Inr passed, [])"
| "verify_loop md5 fs cwd hashes (rpm # rpms) passed =
     (let name = path_name rpm in
      case map_of hashes name of
        None \<Rightarrow>
          (let (r, evs) = verify_loop md5 fs cwd hashes rpms False
           in (r, Print (NotInManifest name) # evs))
      | Some expected \<Rightarrow>
          (case calc_md5 md5 fs cwd (Path name) of
             (Inl e, evs1) \<Rightarrow> (Inl e, evs1)
           | (Inr found, evs1) \<Rightarrow>
               if found \<noteq> expected then
                 (let (r, evs) = verify_loop md5 fs cwd hashes rpms False
                  in (r, evs1 @ Print (CheckFailed name expected found) # evs))
               else
                 (let (r, evs) = verify_loop md5 fs cwd hashes rpms passed
                  in (r, evs1 @ Print (Matches name) # evs))))"

text \<open>
  Only the \<^verbatim>\<open>AssertionError\<close> of \<^verbatim>\<open>read_md5_file\<close> is caught; any other exception of
  it leaves \<^verbatim>\<open>verify_md5s\<close>.
\<close>

definition verify_md5s ::
  "(string \<Rightarrow> string option) \<Rightarrow> (string \<Rightarrow> string) \<Rightarrow> filesystem \<Rightarrow> string list \<Rightarrow>
   path list \<Rightarrow> path \<Rightarrow> (error + bool) \<times> event list"
where
  "verify_md5s decode md5 fs cwd rpms md5_file =
     (case read_md5_file decode fs cwd md5_file of
        (Inl (AssertionError m p), evs) \<Rightarrow> (Inr False, evs @ [Print (ManifestNotFound md5_file)])
      | (Inl e, evs) \<Rightarrow> (Inl e, evs)
      | (Inr hashes, evs) \<Rightarrow>
          (let (r, evs') = verify_loop md5 fs cwd hashes rpms True
           in (r, evs @ Print (FoundHashes (length hashes)) # evs')))"

section \<open>Package classification\<close>

definition BCC_PACK_LIST :: "string list" where
  "BCC_PACK_LIST = [''ckct-BaseCC'', ''ckct-bcc_config'']"

definition DCC_PACK_LIST :: "string list" where
  "DCC_PACK_LIST =
     [''ckct-dasControl'', ''ckct-dcc_config'', ''ckct-DiscCC'', ''ckct-spellmanXRayControl'']"

definition RCC_PACK_LIST :: "string list" where
  "RCC_PACK_LIST =
     [''ckct-DataHandler'', ''ckct-imaging'', ''ckct-kmod'', ''ckct-logger'',
      ''ckct-motorControl'', ''ckct-mscp'', ''ckct-rcc_config'', ''ckct-ReconCC'',
      ''ckct-recorder'', ''ckct-tools'', ''ckct-utils'', ''ckct-utils49172'']"

text \<open>\<^verbatim>\<open>full.startswith(x)\<close>.\<close>

fun startswith :: "string \<Rightarrow> string \<Rightarrow> bool" where
  "startswith full [] = True"
| "startswith [] (x # xs) = False"
| "startswith (c # cs) (x # xs) = (c = x \<and> startswith cs xs)"

definition find_partial :: "string \<Rightarrow> string list \<Rightarrow> bool" where
  "find_partial full partial_list =
     (let result = filter (\<lambda>x. startswith full x) partial_list in length result > 0)"

text \<open>
  \<^verbatim>\<open>yesno\<close> reads answers until one is \<^verbatim>\<open>y\<close> or \<^verbatim>\<open>n\<close> in either case. The operator's
  input is the list of the lines still to be read; \<^verbatim>\<open>input\<close> raises at its end.
\<close>

definition lower :: "string \<Rightarrow> string" where
  "lower s =
     map (\<lambda>c. if 65 \<le> (of_char c :: nat) \<and> (of_char c :: nat) \<le> 90
              then char_of (of_char c + (32::nat)) else c) s"

fun yesno :: "string \<Rightarrow> string list \<Rightarrow> (error + bool) \<times> event list \<times> string list" where
  "yesno question [] = (Inl EOFError, [Input (question @ '' [y/N] > '')], [])"
| "yesno question (sel # stdin) =
     (if lower sel = ''y'' then (Inr True, [Input (question @ '' [y/N] > '')], stdin)
      else if lower sel = ''n'' then (Inr False, [Input (question @ '' [y/N] > '')], stdin)
      else (let (r, evs, stdin') = yesno question stdin
            in (r, Input (question @ '' [y/N] > '') # Print InvalidChoice # evs, stdin')))"

record packs =
  rcc_pack_list :: "path list"
  dcc_pack_list :: "path list"
  bcc_pack_list :: "path list"
  all_ok :: bool

text \<open>The loop over the artifacts found, from the lists built so far.\<close>

fun pack_loop :: "packs \<Rightarrow> path list \<Rightarrow> packs \<times> event list" where
  "pack_loop s [] = (s, [])"
| "pack_loop s (rpm # found_rpms) =
     (let name = path_name rpm in
      if find_partial name RCC_PACK_LIST then
        (let (s', evs) = pack_loop (s\<lparr>rcc_pack_list := rcc_pack_list s @ [rpm]\<rparr>) found_rpms
         in (s', Print (AssignedRCC name) # evs))
      else if find_partial name DCC_PACK_LIST then
        (let (s', evs) = pack_loop (s\<lparr>dcc_pack_list := dcc_pack_list s @ [rpm]\<rparr>) found_rpms
         in (s', Print (AssignedDCC name) # evs))
      else if find_partial name BCC_PACK_LIST then
        (let (s', evs) = pack_loop (s\<lparr>bcc_pack_list := bcc_pack_list s @ [rpm]\<rparr>) found_rpms
         in (s', Print (AssignedBCC name) # evs))
      else
        (let (s', evs) = pack_loop (s\<lparr>all_ok := False\<rparr>) found_rpms
         in (s', Print (NotSure name) # evs)))"

text \<open>The three checks of the counts that follow the loop.\<close>

definition check_count :: "string \<Rightarrow> nat \<Rightarrow> nat \<Rightarrow> packs \<times> event list \<Rightarrow> packs \<times> event list" where
  "check_count host found expected sev =
     (if found \<noteq> expected
      then ((fst sev)\<lparr>all_ok := False\<rparr>, snd sev @ [Print (WrongCount host found expected)])
      else sev)"

definition check_counts :: "packs \<times> event list \<Rightarrow> packs \<times> event list" where
  "check_counts sev =
     (let sev1 = check_count ''RCC'' (length (rcc_pack_list (fst sev))) (length RCC_PACK_LIST) sev;
          sev2 = check_count ''DCC'' (length (dcc_pack_list (fst sev1))) (length DCC_PACK_LIST) sev1
      in check_count ''BCC'' (length (bcc_pack_list (fst sev2))) (length BCC_PACK_LIST) sev2)"

text \<open>
  The state of \<^verbatim>\<open>pack_list\<close> where it tests \<^verbatim>\<open>all_ok\<close>: the three lists and the flag,
  with what was printed on the way.
\<close>

definition classify :: "path list \<Rightarrow> packs \<times> event list" where
  "classify found_rpms =
     check_counts
       (pack_loop \<lparr>rcc_pack_list = [], dcc_pack_list = [], bcc_pack_list = [], all_ok = True\<rparr>
          found_rpms)"

definition pack_list ::
  "string list \<Rightarrow> path list \<Rightarrow>
   (error + (path list \<times> path list \<times> path list) option) \<times> event list \<times> string list"
where
  "pack_list stdin found_rpms =
     (let (s, evs) = classify found_rpms;
          packs = (rcc_pack_list s, dcc_pack_list s, bcc_pack_list s)
      in if \<not> all_ok s then
           (case yesno ''Should we continue anyways, even with the above issue?'' stdin of
              (Inl e, evs', stdin') \<Rightarrow> (Inl e, evs @ evs', stdin')
            | (Inr cont, evs', stdin') \<Rightarrow>
                if \<not> cont then (Inr None, evs @ evs', stdin')
                else (Inr (Some packs), evs @ evs', stdin'))
         else (Inr (Some packs), evs, stdin))"

text \<open>
  The branch the loop takes for an artifact: the first of RCC, DCC and BCC one of whose
  prefixes starts its name, and the final \<^verbatim>\<open>else\<close> when there is none.
\<close>

definition to_rcc :: "path \<Rightarrow> bool" where
  "to_rcc rpm = find_partial (path_name rpm) RCC_PACK_LIST"

definition to_dcc :: "path \<Rightarrow> bool" where
  "to_dcc rpm =
     (\<not> find_partial (path_name rpm) RCC_PACK_LIST \<and> find_partial (path_name rpm) DCC_PACK_LIST)"

definition to_bcc :: "path \<Rightarrow> bool" where
  "to_bcc rpm =
     (\<not> find_partial (path_name rpm) RCC_PACK_LIST \<and> \<not> find_partial (path_name rpm) DCC_PACK_LIST
      \<and> find_partial (path_name rpm) BCC_PACK_LIST)"

definition unassigned :: "path list \<Rightarrow> path list" where
  "unassigned found_rpms =
     filter (\<lambda>rpm. \<not> find_partial (path_name rpm) RCC_PACK_LIST
                 \<and> \<not> find_partial (path_name rpm) DCC_PACK_LIST
                 \<and> \<not> find_partial (path_name rpm) BCC_PACK_LIST) found_rpms"


section \<open>Remote installation\<close>

text \<open>
  The remote host is reached through paramiko and scp. It is a parameter: whether the
  connection is made, the result of a command (exit status, output lines, error lines)
  and whether a transfer completes, each as a function of all that has happened before.
  The date of the run, already formatted by \<^verbatim>\<open>strftime('%Y%m%d')\<close>, is a parameter too.
\<close>

record remote =
  connect_ok :: "event list \<Rightarrow> bool"
  exec_result :: "event list \<Rightarrow> int \<times> string list \<times> string list"
  put_ok :: "event list \<Rightarrow> bool"

definition remote_connect ::
  "remote \<Rightarrow> event list \<Rightarrow> string \<Rightarrow> string \<Rightarrow> string \<Rightarrow> (error + unit) \<times> event list"
where
  "remote_connect env tr remote_ip remote_username remote_password =
     (let tr1 = tr @ [Connect remote_ip remote_username remote_password 10]
      in if connect_ok env tr1 then (Inr (), tr1) else (Inl SSHException, tr1))"

definition remote_privileged_command ::
  "remote \<Rightarrow> event list \<Rightarrow> string \<Rightarrow> string \<Rightarrow> bool \<times> event list"
where
  "remote_privileged_command env tr command remote_password =
     (let command = ''sudo -S -p '' @ [CHR 0x27, CHR 0x27] @ '' '' @ command;
          tr1 = tr @ [Print (RunningCommand command), Exec command,
                      StdinWrite (remote_password @ [CHR 0x0A]), StdinFlush, RecvExitStatus];
          (exitcode, out, err) = exec_result env tr1
      in (exitcode = 0,
          tr1 @ [Print (Output out), Print (ErrorStream err), Print (ExitCode exitcode)]))"

definition remote_command :: "remote \<Rightarrow> event list \<Rightarrow> string \<Rightarrow> bool \<times> event list" where
  "remote_command env tr command =
     (let tr1 = tr @ [Print (RunningCommand command), Exec command, RecvExitStatus];
          (exitcode, out, err) = exec_result env tr1
      in (exitcode = 0,
          tr1 @ [Print (Output out), Print (ErrorStream err), Print (ExitCode exitcode)]))"

definition scp_files :: "remote \<Rightarrow> event list \<Rightarrow> path list \<Rightarrow> string \<Rightarrow> bool \<times> event list" where
  "scp_files env tr local_files remote_path =
     (let tr1 = tr @ [Print (SendingFiles local_files), Put local_files remote_path True]
      in if put_ok env tr1 then (True, tr1 @ [Print SentFiles])
         else (False, tr1 @ [Print ErrorSending]))"

definition yum_install_remote ::
  "remote \<Rightarrow> event list \<Rightarrow> string \<Rightarrow> string \<Rightarrow> bool \<times> event list"
where
  "yum_install_remote env tr path remote_password =
     (let command = ''yum -y install '' @ path
      in remote_privileged_command env tr command remote_password)"

text \<open>
  \<^verbatim>\<open>_check_fail\<close> prints its notice and returns \<^verbatim>\<open>False\<close> when the result is false, and
  returns \<^verbatim>\<open>None\<close> otherwise.
\<close>

definition check_fail :: "event list \<Rightarrow> bool \<Rightarrow> bool option \<times> event list" where
  "check_fail tr res = (if \<not> res then (Some False, tr @ [Print ThatDidntWork]) else (None, tr))"

text \<open>The loop over the remote paths; what \<^verbatim>\<open>_check_fail\<close> returns is not used.\<close>

fun install_loop :: "remote \<Rightarrow> event list \<Rightarrow> string list \<Rightarrow> string \<Rightarrow> event list" where
  "install_loop env tr [] remote_password = tr"
| "install_loop env tr (remote # remotes) remote_password =
     (let tr1 = tr @ [Print (Installing remote)];
          (res, tr2) = yum_install_remote env tr1 remote remote_password;
          (_, tr3) = check_fail tr2 res
      in install_loop env tr3 remotes remote_password)"

definition install_remote ::
  "remote \<Rightarrow> string \<Rightarrow> event list \<Rightarrow> path list \<Rightarrow> string \<Rightarrow> string \<Rightarrow> string \<Rightarrow>
   (error + bool) \<times> event list"
where
  "install_remote env today tr rpms remote_ip remote_username remote_password =
     (case remote_connect env tr remote_ip remote_username remote_password of
        (Inl e, tr1) \<Rightarrow> (Inl e, tr1)
      | (Inr _, tr1) \<Rightarrow>
          (let upload_dir = ''installtool-'' @ today;
               tr2 = tr1 @ [Print (Uploading (length rpms) upload_dir)];
               (res1, tr3) = remote_command env tr2 (''mkdir -p '' @ upload_dir);
               (_, tr4) = check_fail tr3 res1;
               (res2, tr5) = scp_files env tr4 rpms upload_dir;
               (_, tr6) = check_fail tr5 res2;
               remotes = map (\<lambda>x. upload_dir @ ''/'' @ path_name x) rpms;
               tr7 = install_loop env tr6 remotes remote_password
           in (Inr True, tr7 @ [Print InstallComplete])))"

section \<open>Notions the properties are stated with\<close>

subsection \<open>Checksum verification\<close>

text \<open>
  A line is framed when its first character and its last but one are pipes; on a line
  that ends with a newline the last but one is the character before the newline. The
  fields of a line are what \<^verbatim>\<open>read_md5_file\<close> splits it into, and a framed line enters
  the dictionary with its third field as key and its first as value.
\<close>

definition framed :: "string \<Rightarrow> bool" where
  "framed line =
     (2 \<le> length line \<and> hd line = CHR ''|'' \<and> line ! (length line - 2) = CHR ''|'')"

text \<open>
  A conforming line in the words of the specification: it starts with a pipe, and the
  character before its trailing newline is a pipe.
\<close>

definition conforming :: "string \<Rightarrow> bool" where
  "conforming line =
     (line \<noteq> [] \<and> last line = CHR 0x0A \<and> butlast line \<noteq> []
      \<and> hd line = CHR ''|'' \<and> last (butlast line) = CHR ''|'')"

definition fields :: "string \<Rightarrow> string list" where
  "fields line = split_space (strip (remove_pipes line))"

definition add_entry :: "(string \<times> string) list \<Rightarrow> string \<Rightarrow> (string \<times> string) list" where
  "add_entry hashes line = AList.update (fields line ! 2) (fields line ! 0) hashes"

text \<open>
  The fields as the specification words them, "split on whitespace": the maximal runs of
  characters that are not whitespace (\<^verbatim>\<open>str.split()\<close> without argument). This follows the
  specification, not the source.
\<close>

fun split_whitespace_from :: "string \<Rightarrow> string \<Rightarrow> string list" where
  "split_whitespace_from cur [] = (if cur = [] then [] else [cur])"
| "split_whitespace_from cur (c # cs) =
     (if isspace c then (if cur = [] then [] else [cur]) @ split_whitespace_from [] cs
      else split_whitespace_from (cur @ [c]) cs)"

definition spec_fields :: "string \<Rightarrow> string list" where
  "spec_fields line = split_whitespace_from [] (strip (remove_pipes line))"

text \<open>
  Where \<^verbatim>\<open>verify_md5s\<close> looks for an artifact: \<^verbatim>\<open>calc_md5\<close> is given \<^verbatim>\<open>rpm.name\<close>, which
  it resolves from the working directory.
\<close>

definition digest_path :: "string list \<Rightarrow> path \<Rightarrow> string list" where
  "digest_path cwd rpm = resolve cwd (Path (path_name rpm))"

definition readable :: "filesystem \<Rightarrow> string list \<Rightarrow> bool" where
  "readable fs ap = (case fs ap of Some (File content) \<Rightarrow> True | _ \<Rightarrow> False)"

text \<open>
  The outcome of one artifact: a failure when its name is not in the manifest, and
  otherwise whether the digest of the file equals the manifest's entry. With it, what
  the loop does for the artifact when the file can be read.
\<close>

definition outcome ::
  "(string \<Rightarrow> string) \<Rightarrow> filesystem \<Rightarrow> string list \<Rightarrow> (string \<times> string) list \<Rightarrow> path \<Rightarrow> bool"
where
  "outcome md5 fs cwd hashes rpm =
     (case map_of hashes (path_name rpm) of
        None \<Rightarrow> False
      | Some expected \<Rightarrow>
          (case fs (digest_path cwd rpm) of
             Some (File content) \<Rightarrow> md5 content = expected
           | _ \<Rightarrow> False))"

definition report ::
  "(string \<Rightarrow> string) \<Rightarrow> filesystem \<Rightarrow> string list \<Rightarrow> (string \<times> string) list \<Rightarrow> path \<Rightarrow>
   event list"
where
  "report md5 fs cwd hashes rpm =
     (case map_of hashes (path_name rpm) of
        None \<Rightarrow> [Print (NotInManifest (path_name rpm))]
      | Some expected \<Rightarrow>
          (case fs (digest_path cwd rpm) of
             Some (File content) \<Rightarrow>
               [Open (digest_path cwd rpm),
                Print (if md5 content = expected then Matches (path_name rpm)
                       else CheckFailed (path_name rpm) expected (md5 content))]
           | _ \<Rightarrow> []))"

subsection \<open>Remote installation\<close>

text \<open>The commands sent to the host and the exit codes reported, in order.\<close>

fun commands :: "event list \<Rightarrow> string list" where
  "commands [] = []"
| "commands (Exec command # evs) = command # commands evs"
| "commands (ev # evs) = commands evs"

fun exit_codes :: "event list \<Rightarrow> int list" where
  "exit_codes [] = []"
| "exit_codes (Print (ExitCode exitcode) # evs) = exitcode # exit_codes evs"
| "exit_codes (ev # evs) = exit_codes evs"

definition sudo :: "string \<Rightarrow> string" where
  "sudo command = ''sudo -S -p '' @ [CHR 0x27, CHR 0x27] @ '' '' @ command"

definition upload_dir_of :: "string \<Rightarrow> string" where
  "upload_dir_of today = ''installtool-'' @ today"

definition install_command :: "string \<Rightarrow> path \<Rightarrow> string" where
  "install_command today rpm =
     sudo (''yum -y install '' @ upload_dir_of today @ ''/'' @ path_name rpm)"

text \<open>
  What one turn of the install loop adds for an artifact, given the result the host
  returns for its command: the announcement, the privileged command with the password
  fed to it, the three lines of the report and, when the exit code is not 0, the notice
  of \<^verbatim>\<open>_check_fail\<close>.
\<close>

definition install_events ::
  "string \<Rightarrow> string \<Rightarrow> path \<Rightarrow> int \<times> string list \<times> string list \<Rightarrow> event list"
where
  "install_events today remote_password rpm result =
     (case result of
        (exitcode, out, err) \<Rightarrow>
          [Print (Installing (upload_dir_of today @ ''/'' @ path_name rpm)),
           Print (RunningCommand (install_command today rpm)),
           Exec (install_command today rpm),
           StdinWrite (remote_password @ [CHR 0x0A]), StdinFlush, RecvExitStatus,
           Print (Output out), Print (ErrorStream err), Print (ExitCode exitcode)]
          @ (if exitcode = 0 then [] else [Print ThatDidntWork]))"

text \<open>
  The stages of a run of \<^verbatim>\<open>install_remote\<close> on a host that was reached: all that has
  happened when the exit status of \<^verbatim>\<open>mkdir\<close> is awaited, when \<^verbatim>\<open>mkdir\<close> has been
  dealt with, and when \<^verbatim>\<open>scp.put\<close> is called.
\<close>

definition mkdir_call ::
  "string \<Rightarrow> event list \<Rightarrow> path list \<Rightarrow> string \<Rightarrow> string \<Rightarrow> string \<Rightarrow> event list"
where
  "mkdir_call today tr rpms remote_ip remote_username remote_password =
     tr @ [Connect remote_ip remote_username remote_password 10,
           Print (Uploading (length rpms) (upload_dir_of today)),
           Print (RunningCommand (''mkdir -p '' @ upload_dir_of today)),
           Exec (''mkdir -p '' @ upload_dir_of today),
           RecvExitStatus]"

definition mkdir_done ::
  "remote \<Rightarrow> string \<Rightarrow> event list \<Rightarrow> path list \<Rightarrow> string \<Rightarrow> string \<Rightarrow> string \<Rightarrow> event list"
where
  "mkdir_done env today tr rpms remote_ip remote_username remote_password =
     (let tr1 = mkdir_call today tr rpms remote_ip remote_username remote_password;
          (exitcode, out, err) = exec_result env tr1
      in tr1 @ [Print (Output out), Print (ErrorStream err), Print (ExitCode exitcode)]
             @ (if exitcode = 0 then [] else [Print ThatDidntWork]))"

definition upload_call ::
  "remote \<Rightarrow> string \<Rightarrow> event list \<Rightarrow> path list \<Rightarrow> string \<Rightarrow> string \<Rightarrow> string \<Rightarrow> event list"
where
  "upload_call env today tr rpms remote_ip remote_username remote_password =
     mkdir_done env today tr rpms remote_ip remote_username remote_password
       @ [Print (SendingFiles rpms), Put rpms (upload_dir_of today) True]"

definition upload_done ::
  "remote \<Rightarrow> string \<Rightarrow> event list \<Rightarrow> path list \<Rightarrow> string \<Rightarrow> string \<Rightarrow> string \<Rightarrow> event list"
where
  "upload_done env today tr rpms remote_ip remote_username remote_password =
     (let tr1 = upload_call env today tr rpms remote_ip remote_username remote_password
      in tr1 @ (if put_ok env tr1 then [Print SentFiles]
                else [Print ErrorSending, Print ThatDidntWork]))"

section \<open>Scenarios\<close>

text \<open>
  The codec of the scenarios: bytes below 128 are the characters they encode, as in
  ASCII, UTF-8 and Latin-1 alike; the scenarios hold no other byte.
\<close>

definition decode_ascii :: "string \<Rightarrow> string option" where
  "decode_ascii bytes =
     (if list_all (\<lambda>b. (of_char b :: nat) < 128) bytes then Some bytes else None)"

text \<open>
  A release directory \<^verbatim>\<open>/work\<close> with a manifest of two entries: \<^verbatim>\<open>pkg-a.rpm\<close> has the
  digest listed, \<^verbatim>\<open>pkg-b.rpm\<close> has another one and \<^verbatim>\<open>pkg-c.rpm\<close> is not listed. Any
  function may stand for the digest; the scenarios take the content itself.
\<close>

definition release_manifest :: string where
  "release_manifest =
     ''header'' @ [CHR 0x0A] @ ''| aaaa - pkg-a.rpm |'' @ [CHR 0x0A]
       @ ''| bbbb - pkg-b.rpm |'' @ [CHR 0x0A]"

definition release_fs :: filesystem where
  "release_fs =
     (\<lambda>ap. if ap = [''work''] then Some Dir
           else if ap = [''work'', ''md5.txt''] then Some (File release_manifest)
           else if ap = [''work'', ''pkg-a.rpm''] then Some (File ''aaaa'')
           else if ap = [''work'', ''pkg-b.rpm''] then Some (File ''xxxx'')
           else if ap = [''work'', ''pkg-c.rpm''] then Some (File ''cccc'')
           else None)"

definition release_rpms :: "path list" where
  "release_rpms =
     [Abs [''work'', ''pkg-a.rpm''], Abs [''work'', ''pkg-b.rpm''], Abs [''work'', ''pkg-c.rpm'']]"


text \<open>
  A release whose two artifacts are listed with their digests, the second one lying in
  a directory of its own.
\<close>

definition moved_fs :: filesystem where
  "moved_fs =
     (\<lambda>ap. if ap = [''work''] \<or> ap = [''work'', ''armv7l''] then Some Dir
           else if ap = [''work'', ''md5.txt'']
             then Some (File (''| aaaa - pkg-a.rpm |'' @ [CHR 0x0A]
                              @ ''| bbbb - pkg-b.rpm |'' @ [CHR 0x0A]))
           else if ap = [''work'', ''pkg-a.rpm''] then Some (File ''aaaa'')
           else if ap = [''work'', ''armv7l'', ''pkg-b.rpm''] then Some (File ''bbbb'')
           else None)"

definition moved_rpms :: "path list" where
  "moved_rpms = [Abs [''work'', ''pkg-a.rpm''], Abs [''work'', ''armv7l'', ''pkg-b.rpm'']]"

text \<open>A working directory in which \<^verbatim>\<open>md5.txt\<close> is a directory, and an empty one.\<close>

definition manifest_dir_fs :: filesystem where
  "manifest_dir_fs =
     (\<lambda>ap. if ap = [''work''] \<or> ap = [''work'', ''md5.txt''] then Some Dir
           else if ap = [''work'', ''pkg-a.rpm''] then Some (File ''aaaa'')
           else None)"

definition no_manifest_fs :: filesystem where
  "no_manifest_fs =
     (\<lambda>ap. if ap = [''work''] then Some Dir
           else if ap = [''work'', ''pkg-a.rpm''] then Some (File ''aaaa'')
           else None)"

text \<open>The manifest line of the specification's first scenario, with its inner pipes.\<close>

definition piped_line :: string where
  "piped_line = ''| d41d8cd98f00b204e9800998ecf8427e | - | pkg-a.rpm |'' @ [CHR 0x0A]"

definition piped_fs :: filesystem where
  "piped_fs = (\<lambda>ap. if ap = [''work'', ''md5.txt''] then Some (File piped_line) else None)"

text \<open>A manifest line whose three fields are separated by tabs.\<close>

definition tabbed_line :: string where
  "tabbed_line =
     ''|d41d8cd98f00b204e9800998ecf8427e'' @ [CHR 0x09] @ ''-'' @ [CHR 0x09] @ ''pkg-a.rpm|''
       @ [CHR 0x0A]"

definition tabbed_fs :: filesystem where
  "tabbed_fs = (\<lambda>ap. if ap = [''work'', ''md5.txt''] then Some (File tabbed_line) else None)"



definition with_unknown :: "path list" where
  "with_unknown =
     [Abs [''work'', ''ckct-BaseCC-1.rpm''], Abs [''work'', ''ckct-DataHandler-1.rpm''],
      Abs [''work'', ''unknown-1.rpm'']]"

text \<open>
  Three hosts that accept the connection: one on which every privileged command exits
  with 1 (\<^verbatim>\<open>sudo\<close> refuses the password) while plain commands succeed, one on which the
  transfer fails, and one on which \<^verbatim>\<open>mkdir\<close> fails.
\<close>

definition sudo_refused :: remote where
  "sudo_refused =
     \<lparr>connect_ok = (\<lambda>tr. True),
      exec_result = (\<lambda>tr. (if List.member tr StdinFlush then 1 else 0, [], [])),
      put_ok = (\<lambda>tr. True)\<rparr>"

definition upload_refused :: remote where
  "upload_refused =
     \<lparr>connect_ok = (\<lambda>tr. True),
      exec_result = (\<lambda>tr. (0, [], [])),
      put_ok = (\<lambda>tr. False)\<rparr>"

definition mkdir_refused :: remote where
  "mkdir_refused =
     \<lparr>connect_ok = (\<lambda>tr. True),
      exec_result = (\<lambda>tr. (if List.member tr StdinFlush then 0 else 1, [], [])),
      put_ok = (\<lambda>tr. True)\<rparr>"

definition two_rpms :: "path list" where
  "two_rpms = [Abs [''work'', ''pkgA.rpm''], Abs [''work'', ''pkgB.rpm'']]"

section \<open>Package classification: the lists and the completeness flag\<close>

text \<open>
  The loop appends to each list the artifacts that take its branch, in the order they
  come, and clears the flag as soon as one artifact takes none.
\<close>

lemma pack_loop_state:
  "fst (pack_loop s found_rpms) =
     s\<lparr>rcc_pack_list := rcc_pack_list s @ filter to_rcc found_rpms,
       dcc_pack_list := dcc_pack_list s @ filter to_dcc found_rpms,
       bcc_pack_list := bcc_pack_list s @ filter to_bcc found_rpms,
       all_ok := all_ok s \<and> unassigned found_rpms = []\<rparr>"
proof (induction found_rpms arbitrary: s)
  case Nil
  show ?case by (simp add: unassigned_def)
next
  case (Cons rpm found_rpms)
  show ?case
    by (simp add: Let_def split_beta Cons.IH to_rcc_def to_dcc_def to_bcc_def unassigned_def)
qed



lemma check_count_fst:
  "fst (check_count host n m sev) = (if n \<noteq> m then (fst sev)\<lparr>all_ok := False\<rparr> else fst sev)"
  by (simp add: check_count_def)


lemma classify_state:
  "fst (classify found_rpms) =
     \<lparr>rcc_pack_list = filter to_rcc found_rpms,
      dcc_pack_list = filter to_dcc found_rpms,
      bcc_pack_list = filter to_bcc found_rpms,
      all_ok = (unassigned found_rpms = []
         \<and> length (filter to_rcc found_rpms) = length RCC_PACK_LIST
         \<and> length (filter to_dcc found_rpms) = length DCC_PACK_LIST
         \<and> length (filter to_bcc found_rpms) = length BCC_PACK_LIST)\<rparr>"
  by (simp add: classify_def check_counts_def Let_def check_count_fst pack_loop_state)


text \<open>What \<^verbatim>\<open>pack_list\<close> returns, when it returns lists, are the lists of the loop.\<close>

lemma pack_list_returns:
  "fst (pack_list stdin found_rpms) = Inr (Some res) \<Longrightarrow>
     res = (filter to_rcc found_rpms, filter to_dcc found_rpms, filter to_bcc found_rpms)"
  by (auto simp: pack_list_def Let_def split_beta classify_state
           split: if_splits sum.splits prod.splits)




text \<open>
  Claim C5. The lists \<^verbatim>\<open>pack_list\<close> builds are the artifacts that take the RCC branch,
  those that take the DCC branch (no RCC prefix, a DCC prefix) and those that take the
  BCC branch (neither, a BCC prefix), each in the order of the input. No artifact takes
  two branches, so no two lists share an artifact, and an artifact that matches no
  prefix is in none. Each list is a subsequence of the input, and whenever \<^verbatim>\<open>pack_list\<close>
  returns lists it returns these.
\<close>

theorem pack_list_first_match:
  "rcc_pack_list (fst (classify found_rpms)) = filter to_rcc found_rpms
   \<and> dcc_pack_list (fst (classify found_rpms)) = filter to_dcc found_rpms
   \<and> bcc_pack_list (fst (classify found_rpms)) = filter to_bcc found_rpms
   \<and> (\<forall>rpm. \<not> (to_rcc rpm \<and> to_dcc rpm) \<and> \<not> (to_rcc rpm \<and> to_bcc rpm)
            \<and> \<not> (to_dcc rpm \<and> to_bcc rpm))
   \<and> set (rcc_pack_list (fst (classify found_rpms)))
        \<inter> set (dcc_pack_list (fst (classify found_rpms))) = {}
   \<and> set (rcc_pack_list (fst (classify found_rpms)))
        \<inter> set (bcc_pack_list (fst (classify found_rpms))) = {}
   \<and> set (dcc_pack_list (fst (classify found_rpms)))
        \<inter> set (bcc_pack_list (fst (classify found_rpms))) = {}
   \<and> (\<forall>rpm \<in> set (unassigned found_rpms).
         rpm \<notin> set (rcc_pack_list (fst (classify found_rpms)))
         \<and> rpm \<notin> set (dcc_pack_list (fst (classify found_rpms)))
         \<and> rpm \<notin> set (bcc_pack_list (fst (classify found_rpms))))
   \<and> subseq (rcc_pack_list (fst (classify found_rpms))) found_rpms
   \<and> subseq (dcc_pack_list (fst (classify found_rpms))) found_rpms
   \<and> subseq (bcc_pack_list (fst (classify found_rpms))) found_rpms
   \<and> (\<forall>res. fst (pack_list stdin found_rpms) = Inr (Some res) \<longrightarrow>
         res = (rcc_pack_list (fst (classify found_rpms)),
                dcc_pack_list (fst (classify found_rpms)),
                bcc_pack_list (fst (classify found_rpms))))"
proof -
  have excl: "\<not> (to_rcc rpm \<and> to_dcc rpm) \<and> \<not> (to_rcc rpm \<and> to_bcc rpm)
                \<and> \<not> (to_dcc rpm \<and> to_bcc rpm)" for rpm
    by (auto simp: to_rcc_def to_dcc_def to_bcc_def)
  have un: "rpm \<in> set (unassigned found_rpms) \<Longrightarrow> \<not> to_rcc rpm \<and> \<not> to_dcc rpm \<and> \<not> to_bcc rpm"
    for rpm
    by (auto simp: unassigned_def to_rcc_def to_dcc_def to_bcc_def)
  have d1: "set (filter to_rcc found_rpms) \<inter> set (filter to_dcc found_rpms) = {}"
    using excl by auto
  have d2: "set (filter to_rcc found_rpms) \<inter> set (filter to_bcc found_rpms) = {}"
    using excl by auto
  have d3: "set (filter to_dcc found_rpms) \<inter> set (filter to_bcc found_rpms) = {}"
    using excl by auto
  have ret: "fst (pack_list stdin found_rpms) = Inr (Some res) \<longrightarrow>
         res = (filter to_rcc found_rpms, filter to_dcc found_rpms, filter to_bcc found_rpms)"
    for res
    using pack_list_returns by blast
  show ?thesis
    unfolding classify_state packs.simps
    using excl un d1 d2 d3 ret by simp
qed

text \<open>
  The claim at work on the specification's second scenario, with the operator answering
  \<^verbatim>\<open>y\<close>: the unknown artifact is in no list, and the lists returned are those of the loop.
\<close>

theorem pack_list_first_match_witness:
  "Abs [''work'', ''unknown-1.rpm''] \<in> set (unassigned with_unknown)
   \<and> Abs [''work'', ''unknown-1.rpm''] \<notin> set (rcc_pack_list (fst (classify with_unknown)))
   \<and> Abs [''work'', ''unknown-1.rpm''] \<notin> set (dcc_pack_list (fst (classify with_unknown)))
   \<and> Abs [''work'', ''unknown-1.rpm''] \<notin> set (bcc_pack_list (fst (classify with_unknown)))
   \<and> fst (pack_list [''y''] with_unknown) =
       Inr (Some ([Abs [''work'', ''ckct-DataHandler-1.rpm'']], [],
                  [Abs [''work'', ''ckct-BaseCC-1.rpm'']]))
   \<and> ([Abs [''work'', ''ckct-DataHandler-1.rpm'']], [], [Abs [''work'', ''ckct-BaseCC-1.rpm'']])
       = (rcc_pack_list (fst (classify with_unknown)),
          dcc_pack_list (fst (classify with_unknown)),
          bcc_pack_list (fst (classify with_unknown)))"
proof -
  have un: "Abs [''work'', ''unknown-1.rpm''] \<in> set (unassigned with_unknown)"
    by code_simp
  have ret: "fst (pack_list [''y''] with_unknown) =
       Inr (Some ([Abs [''work'', ''ckct-DataHandler-1.rpm'']], [],
                  [Abs [''work'', ''ckct-BaseCC-1.rpm'']]))"
    by code_simp
  show ?thesis
    using un ret pack_list_first_match [of with_unknown "[''y'']"] by blast
qed

section \<open>Checksum verification: the manifest\<close>

lemma readlines_nonempty: "[] \<notin> set (readlines s)"
  by (induction s) (auto split: list.splits)

lemma skip_line_framed:
  "line \<noteq> [] \<Longrightarrow> line \<noteq> ''|'' \<Longrightarrow> skip_line line = Inr (\<not> framed line)"
  by (cases line) (auto simp: skip_line_def framed_def Suc_le_eq)

lemma read_lines_framed:
  assumes "\<forall>line \<in> set lines.
             line \<noteq> [] \<and> line \<noteq> ''|'' \<and> (framed line \<longrightarrow> 3 \<le> length (fields line))"
  shows "read_lines hashes lines = Inr (foldl add_entry hashes (filter framed lines))"
  using assms
proof (induction lines arbitrary: hashes)
  case Nil
  show ?case by simp
next
  case (Cons line lines)
  then have skip: "skip_line line = Inr (\<not> framed line)"
    by (simp add: skip_line_framed)
  show ?case
  proof (cases "framed line")
    case True
    with Cons.prems have "\<not> length (fields line) < 3" by auto
    then show ?thesis
      using True skip Cons by (simp add: fields_def add_entry_def Let_def)
  next
    case False
    then show ?thesis using skip Cons by simp
  qed
qed

lemma framed_newline:
  "framed (body @ [CHR 0x0A]) \<longleftrightarrow> body \<noteq> [] \<and> hd body = CHR ''|'' \<and> last body = CHR ''|''"
proof (cases body rule: rev_cases)
  case Nil
  then show ?thesis by (simp add: framed_def)
next
  case (snoc bs b)
  then show ?thesis by (cases bs) (auto simp: framed_def nth_append)
qed

lemma framed_conforming:
  assumes "line \<noteq> []" and "last line = CHR 0x0A"
  shows "framed line \<longleftrightarrow> conforming line"
proof -
  obtain body where line: "line = body @ [CHR 0x0A]"
    using assms by (metis append_butlast_last_id)
  show ?thesis
    unfolding line framed_newline by (cases body) (auto simp: conforming_def)
qed

text \<open>
  Claim C7, as the code has it. Of a manifest that can be decoded, whose lines all end
  with a newline and none of whose conforming lines has fewer than three fields,
  \<^verbatim>\<open>read_md5_file\<close> keeps exactly the conforming lines: those that start with a pipe
  and whose character before the trailing newline is a pipe. Each kept line has its
  pipes removed, is trimmed and is split at every single space; its field 0 is recorded
  as the digest of the file named by its field 2. All other lines are skipped.
\<close>

theorem read_md5_file_framed:
  assumes "fs (resolve cwd p) = Some (File content)"
    and "decode content = Some decoded"
    and "\<forall>line \<in> set (readlines (universal_newlines decoded)).
           last line = CHR 0x0A \<and> (conforming line \<longrightarrow> 3 \<le> length (fields line))"
  shows "read_md5_file decode fs cwd p =
           (Inr (foldl add_entry []
                   (filter conforming (readlines (universal_newlines decoded)))),
            [Open (resolve cwd p)])"
proof -
  have same: "framed line \<longleftrightarrow> conforming line"
    if "line \<in> set (readlines (universal_newlines decoded))" for line
    using that assms(3) readlines_nonempty framed_conforming by metis
  have "\<forall>line \<in> set (readlines (universal_newlines decoded)).
          line \<noteq> [] \<and> line \<noteq> ''|'' \<and> (framed line \<longrightarrow> 3 \<le> length (fields line))"
  proof
    fix line
    assume l: "line \<in> set (readlines (universal_newlines decoded))"
    then have "line \<noteq> []"
      using readlines_nonempty by metis
    moreover have "line \<noteq> ''|''"
      using l assms(3) by auto
    moreover have "framed line \<longrightarrow> 3 \<le> length (fields line)"
      using l assms(3) same by blast
    ultimately show "line \<noteq> [] \<and> line \<noteq> ''|'' \<and> (framed line \<longrightarrow> 3 \<le> length (fields line))"
      by blast
  qed
  then have "read_lines [] (readlines (universal_newlines decoded)) =
      Inr (foldl add_entry [] (filter framed (readlines (universal_newlines decoded))))"
    by (rule read_lines_framed)
  moreover have "filter framed (readlines (universal_newlines decoded))
                   = filter conforming (readlines (universal_newlines decoded))"
    using same by (auto intro: filter_cong)
  ultimately show ?thesis
    using assms(1,2) by (simp add: read_md5_file_def)
qed

text \<open>The release manifest: the header line is skipped and the two entries are kept.\<close>

theorem read_md5_file_framed_witness:
  "release_fs (resolve [''work''] (Rel [''md5.txt''])) = Some (File release_manifest)
   \<and> decode_ascii release_manifest = Some release_manifest
   \<and> read_md5_file decode_ascii release_fs [''work''] (Rel [''md5.txt'']) =
       (Inr [(''pkg-a.rpm'', ''aaaa''), (''pkg-b.rpm'', ''bbbb'')], [Open [''work'', ''md5.txt'']])"
proof -
  have h1: "release_fs (resolve [''work''] (Rel [''md5.txt''])) = Some (File release_manifest)"
    by (simp add: release_fs_def)
  have h2: "decode_ascii release_manifest = Some release_manifest"
    by code_simp
  have h3: "\<forall>line \<in> set (readlines (universal_newlines release_manifest)).
         last line = CHR 0x0A \<and> (conforming line \<longrightarrow> 3 \<le> length (fields line))"
    by code_simp
  have v: "foldl add_entry [] (filter conforming (readlines (universal_newlines release_manifest)))
             = [(''pkg-a.rpm'', ''aaaa''), (''pkg-b.rpm'', ''bbbb'')]"
    by code_simp
  show ?thesis
    using h1 h2 h3 v
      read_md5_file_framed [where fs = release_fs and cwd = "[''work'']"
        and p = "Rel [''md5.txt'']" and content = release_manifest and decode = decode_ascii
        and decoded = release_manifest]
    by simp
qed

text \<open>
  Claim C7 as it is stated fails on the manifest line of the specification's own first
  scenario. Split on whitespace, the line has the fields digest, \<^verbatim>\<open>-\<close> and
  \<^verbatim>\<open>pkg-a.rpm\<close>; the code splits at single spaces, finds empty fields where the inner
  pipes were, and records the digest under the name \<^verbatim>\<open>-\<close>. On a line whose fields
  are separated by tabs the code finds one field only, and raises.
\<close>

theorem read_md5_file_single_space_counterexample:
  "spec_fields piped_line = [''d41d8cd98f00b204e9800998ecf8427e'', ''-'', ''pkg-a.rpm'']
   \<and> fst (read_md5_file decode_ascii piped_fs [''work''] (Rel [''md5.txt'']))
       = Inr [(''-'', ''d41d8cd98f00b204e9800998ecf8427e'')]
   \<and> spec_fields tabbed_line = [''d41d8cd98f00b204e9800998ecf8427e'', ''-'', ''pkg-a.rpm'']
   \<and> fst (read_md5_file decode_ascii tabbed_fs [''work''] (Rel [''md5.txt''])) = Inl IndexError"
  by code_simp

section \<open>Checksum verification: the artifacts\<close>

declare feed_chunks.simps [simp del]

text \<open>Feeding a file chunk by chunk feeds the whole file.\<close>

lemma feed_chunks_all: "feed_chunks acc rest = acc @ rest"
proof (induction acc rest rule: feed_chunks.induct)
  case (1 acc rest)
  show ?case
  proof (cases "take 8192 rest = []")
    case True
    then show ?thesis by (subst feed_chunks.simps) simp
  next
    case False
    then have "feed_chunks acc rest = feed_chunks (acc @ take 8192 rest) (drop 8192 rest)"
      by (subst feed_chunks.simps) simp
    also have "\<dots> = (acc @ take 8192 rest) @ drop 8192 rest"
      using False by (rule "1.IH")
    finally show ?thesis by simp
  qed
qed

lemma calc_md5_file:
  "fs (resolve cwd p) = Some (File content) \<Longrightarrow>
     calc_md5 md5 fs cwd p = (Inr (md5 content), [Open (resolve cwd p)])"
  by (simp add: calc_md5_def feed_chunks_all)


lemma verify_loop_readable:
  assumes "\<forall>rpm \<in> set rpms.
             map_of hashes (path_name rpm) \<noteq> None \<longrightarrow> readable fs (digest_path cwd rpm)"
  shows "verify_loop md5 fs cwd hashes rpms passed =
           (Inr (passed \<and> list_all (outcome md5 fs cwd hashes) rpms),
            concat (map (report md5 fs cwd hashes) rpms))"
  using assms
proof (induction rpms arbitrary: passed)
  case Nil
  show ?case by simp
next
  case (Cons rpm rpms)
  have rest: "verify_loop md5 fs cwd hashes rpms b =
           (Inr (b \<and> list_all (outcome md5 fs cwd hashes) rpms),
            concat (map (report md5 fs cwd hashes) rpms))" for b
    using Cons by simp
  show ?case
  proof (cases "map_of hashes (path_name rpm)")
    case None
    then have "outcome md5 fs cwd hashes rpm = False"
      and "report md5 fs cwd hashes rpm = [Print (NotInManifest (path_name rpm))]"
      by (simp_all add: outcome_def report_def)
    with None show ?thesis by (simp add: rest)
  next
    case (Some expected)
    with Cons.prems obtain content where c: "fs (digest_path cwd rpm) = Some (File content)"
      by (auto simp: readable_def split: option.splits node.splits)
    then have "calc_md5 md5 fs cwd (Path (path_name rpm)) =
                 (Inr (md5 content), [Open (digest_path cwd rpm)])"
      by (simp add: calc_md5_file digest_path_def)
    moreover have "outcome md5 fs cwd hashes rpm = (md5 content = expected)"
      and "report md5 fs cwd hashes rpm =
            [Open (digest_path cwd rpm),
             Print (if md5 content = expected then Matches (path_name rpm)
                    else CheckFailed (path_name rpm) expected (md5 content))]"
      using Some c by (simp_all add: outcome_def report_def)
    ultimately show ?thesis using Some by (simp add: rest)
  qed
qed





lemma verify_md5s_loop:
  assumes "fst (read_md5_file decode fs cwd md5_file) = Inr hashes"
  shows "verify_md5s decode md5 fs cwd rpms md5_file =
           (fst (verify_loop md5 fs cwd hashes rpms True),
            snd (read_md5_file decode fs cwd md5_file) @ Print (FoundHashes (length hashes))
              # snd (verify_loop md5 fs cwd hashes rpms True))"
  using assms by (cases "read_md5_file decode fs cwd md5_file") (simp add: verify_md5s_def split_beta)

text \<open>
  Claim C4, as the code has it. With the manifest read into \<open>hashes\<close>, and every artifact that is listed in
  it readable where \<^verbatim>\<open>calc_md5\<close> looks for it, \<^verbatim>\<open>verify_md5s\<close> goes through the artifacts
  in the order of the input: an artifact whose name is not in the manifest is reported
  as a failure and no file is opened for it; for any other the file is opened, its
  digest computed and compared, a difference reported as a failure and equality as a
  success. The result is the conjunction of the outcomes of all artifacts.
\<close>

theorem verify_md5s_conjunction:
  assumes "fst (read_md5_file decode fs cwd md5_file) = Inr hashes"
    and "\<forall>rpm \<in> set rpms.
           map_of hashes (path_name rpm) \<noteq> None \<longrightarrow> readable fs (digest_path cwd rpm)"
  shows "verify_md5s decode md5 fs cwd rpms md5_file =
           (Inr (list_all (outcome md5 fs cwd hashes) rpms),
            snd (read_md5_file decode fs cwd md5_file) @ Print (FoundHashes (length hashes))
              # concat (map (report md5 fs cwd hashes) rpms))"
  using verify_md5s_loop [OF assms(1)] verify_loop_readable [OF assms(2)] by simp

text \<open>
  The release directory: one artifact matches, one does not and one is not listed; the
  verification fails, and no file is opened for the one that is not listed.
\<close>

theorem verify_md5s_conjunction_witness:
  "fst (read_md5_file decode_ascii release_fs [''work''] (Rel [''md5.txt''])) =
       Inr [(''pkg-a.rpm'', ''aaaa''), (''pkg-b.rpm'', ''bbbb'')]
   \<and> verify_md5s decode_ascii (\<lambda>content. content) release_fs [''work''] release_rpms (Rel [''md5.txt'']) =
       (Inr False,
        [Open [''work'', ''md5.txt''], Print (FoundHashes 2),
         Open [''work'', ''pkg-a.rpm''], Print (Matches ''pkg-a.rpm''),
         Open [''work'', ''pkg-b.rpm''], Print (CheckFailed ''pkg-b.rpm'' ''bbbb'' ''xxxx''),
         Print (NotInManifest ''pkg-c.rpm'')])"
proof -
  have h1: "fst (read_md5_file decode_ascii release_fs [''work''] (Rel [''md5.txt''])) =
       Inr [(''pkg-a.rpm'', ''aaaa''), (''pkg-b.rpm'', ''bbbb'')]"
    by code_simp
  have h2: "\<forall>rpm \<in> set release_rpms.
         map_of [(''pkg-a.rpm'', ''aaaa''), (''pkg-b.rpm'', ''bbbb'')] (path_name rpm) \<noteq> None
           \<longrightarrow> readable release_fs (digest_path [''work''] rpm)"
    by code_simp
  have v1: "list_all (outcome (\<lambda>content. content) release_fs [''work'']
              [(''pkg-a.rpm'', ''aaaa''), (''pkg-b.rpm'', ''bbbb'')]) release_rpms = False"
    by code_simp
  have v2: "snd (read_md5_file decode_ascii release_fs [''work''] (Rel [''md5.txt'']))
              @ Print (FoundHashes (length [(''pkg-a.rpm'', ''aaaa''), (''pkg-b.rpm'', ''bbbb'')]))
              # concat (map (report (\<lambda>content. content) release_fs [''work'']
                  [(''pkg-a.rpm'', ''aaaa''), (''pkg-b.rpm'', ''bbbb'')]) release_rpms) =
        [Open [''work'', ''md5.txt''], Print (FoundHashes 2),
         Open [''work'', ''pkg-a.rpm''], Print (Matches ''pkg-a.rpm''),
         Open [''work'', ''pkg-b.rpm''], Print (CheckFailed ''pkg-b.rpm'' ''bbbb'' ''xxxx''),
         Print (NotInManifest ''pkg-c.rpm'')]"
    by code_simp
  show ?thesis
    using h1 h2 verify_md5s_conjunction [OF h1 h2, of "\<lambda>content. content"]
    unfolding v1 v2 by blast
qed

text \<open>
  Claim C4 as it is stated holds of every artifact sequence. When an artifact that the
  manifest lists has no file under its base name in the working directory, the digest is
  not computed: the assertion of \<^verbatim>\<open>calc_md5\<close> ends the run after the first artifact, and
  there is no result to be the conjunction of the outcomes.
\<close>

theorem verify_md5s_missing_file_counterexample:
  "verify_md5s decode_ascii (\<lambda>content. content) moved_fs [''work''] moved_rpms (Rel [''md5.txt''])
     = (Inl (AssertionError ''md5sum requested for nonexistent path'' [''work'', ''pkg-b.rpm'']),
        [Open [''work'', ''md5.txt''], Print (FoundHashes 2),
         Open [''work'', ''pkg-a.rpm''], Print (Matches ''pkg-a.rpm'')])"
  by code_simp

text \<open>
  Claim C6, as the code has it. When the manifest path does not exist, \<^verbatim>\<open>verify_md5s\<close>
  returns false at once: it reports that the manifest was not found and does nothing
  else, so no file is opened and no digest is computed for any artifact.
\<close>

theorem verify_md5s_manifest_missing:
  assumes "fs (resolve cwd md5_file) = None"
  shows "verify_md5s decode md5 fs cwd rpms md5_file = (Inr False, [Print (ManifestNotFound md5_file)])"
  using assms by (simp add: verify_md5s_def read_md5_file_def)

theorem verify_md5s_manifest_missing_witness:
  "no_manifest_fs (resolve [''work''] (Rel [''md5.txt''])) = None
   \<and> verify_md5s decode_ascii (\<lambda>content. content) no_manifest_fs [''work''] [Abs [''work'', ''pkg-a.rpm'']]
         (Rel [''md5.txt''])
       = (Inr False, [Print (ManifestNotFound (Rel [''md5.txt'']))])"
proof -
  have h: "no_manifest_fs (resolve [''work''] (Rel [''md5.txt''])) = None"
    by (simp add: no_manifest_fs_def)
  show ?thesis
    using h
      verify_md5s_manifest_missing [of no_manifest_fs "[''work'']" "Rel [''md5.txt'']"
        decode_ascii "\<lambda>content. content" "[Abs [''work'', ''pkg-a.rpm'']]"]
    by simp
qed

text \<open>
  Claim C6 as it is stated covers a manifest that is there but cannot be opened. The
  code catches the failed assertion of \<^verbatim>\<open>read_md5_file\<close> only: where \<^verbatim>\<open>md5.txt\<close> is a
  directory, \<^verbatim>\<open>open\<close> raises and the exception leaves \<^verbatim>\<open>verify_md5s\<close>, which returns
  nothing.
\<close>

theorem verify_md5s_manifest_unreadable_counterexample:
  "verify_md5s decode_ascii (\<lambda>content. content) manifest_dir_fs [''work''] [Abs [''work'', ''pkg-a.rpm'']]
      (Rel [''md5.txt''])
     = (Inl (IsADirectoryError [''work'', ''md5.txt'']), [Open [''work'', ''md5.txt'']])"
  by code_simp



section \<open>Remote installation: what is sent to the host\<close>

lemma commands_append: "commands (xs @ ys) = commands xs @ commands ys"
  by (induction xs rule: commands.induct) simp_all

lemma privileged_trace:
  "\<exists>exitcode out err.
     exec_result env (tr @ [Print (RunningCommand (sudo command)), Exec (sudo command),
                            StdinWrite (remote_password @ [CHR 0x0A]), StdinFlush, RecvExitStatus])
       = (exitcode, out, err)
     \<and> remote_privileged_command env tr command remote_password =
         (exitcode = 0,
          tr @ [Print (RunningCommand (sudo command)), Exec (sudo command),
                StdinWrite (remote_password @ [CHR 0x0A]), StdinFlush, RecvExitStatus,
                Print (Output out), Print (ErrorStream err), Print (ExitCode exitcode)])"
  by (cases "exec_result env (tr @ [Print (RunningCommand (sudo command)), Exec (sudo command),
                            StdinWrite (remote_password @ [CHR 0x0A]), StdinFlush, RecvExitStatus])")
     (simp add: remote_privileged_command_def sudo_def Let_def)

lemma yum_install_commands:
  "\<exists>evs. snd (yum_install_remote env tr path remote_password) = tr @ evs
     \<and> commands evs = [sudo (''yum -y install '' @ path)]"
  using privileged_trace [of env tr "''yum -y install '' @ path" remote_password]
  by (auto simp: yum_install_remote_def)

lemma check_fail_commands:
  "\<exists>evs. snd (check_fail tr res) = tr @ evs \<and> commands evs = []"
  by (simp add: check_fail_def)

text \<open>The loop sends one install command for each remote path, whatever the results.\<close>

lemma install_loop_commands:
  "\<exists>evs. install_loop env tr remotes remote_password = tr @ evs
     \<and> commands evs = map (\<lambda>remote. sudo (''yum -y install '' @ remote)) remotes"
proof (induction remotes arbitrary: tr)
  case Nil
  show ?case by simp
next
  case (Cons remote remotes)
  obtain e1 where e1:
    "snd (yum_install_remote env (tr @ [Print (Installing remote)]) remote remote_password)
        = (tr @ [Print (Installing remote)]) @ e1"
    "commands e1 = [sudo (''yum -y install '' @ remote)]"
    using yum_install_commands by blast
  obtain e2 where e2:
    "snd (check_fail
           (snd (yum_install_remote env (tr @ [Print (Installing remote)]) remote remote_password))
           (fst (yum_install_remote env (tr @ [Print (Installing remote)]) remote remote_password)))
      = snd (yum_install_remote env (tr @ [Print (Installing remote)]) remote remote_password) @ e2"
    "commands e2 = []"
    using check_fail_commands by blast
  obtain e3 where e3:
    "install_loop env (tr @ Print (Installing remote) # e1 @ e2) remotes remote_password
      = (tr @ Print (Installing remote) # e1 @ e2) @ e3"
    "commands e3 = map (\<lambda>remote. sudo (''yum -y install '' @ remote)) remotes"
    using Cons.IH by blast
  have "install_loop env tr (remote # remotes) remote_password
          = tr @ (Print (Installing remote) # e1 @ e2 @ e3)"
    using e1(1) e2(1) e3(1) by (simp add: split_beta Let_def)
  moreover have "commands (Print (Installing remote) # e1 @ e2 @ e3) =
     map (\<lambda>remote. sudo (''yum -y install '' @ remote)) (remote # remotes)"
    using e1(2) e2(2) e3(2) by (simp add: commands_append)
  ultimately show ?case by blast
qed

text \<open>Turn by turn, the loop adds the events of one install for each artifact.\<close>

lemma install_loop_events:
  "\<exists>results. length results = length rpms
     \<and> install_loop env tr (map (\<lambda>x. upload_dir_of today @ ''/'' @ path_name x) rpms)
           remote_password
         = tr @ concat (map2 (install_events today remote_password) rpms results)"
proof (induction rpms arbitrary: tr)
  case Nil
  show ?case by simp
next
  case (Cons rpm rpms)
  define remote where "remote = upload_dir_of today @ ''/'' @ path_name rpm"
  obtain exitcode out err where r:
    "remote_privileged_command env (tr @ [Print (Installing remote)])
        (''yum -y install '' @ remote) remote_password =
       (exitcode = 0,
        (tr @ [Print (Installing remote)])
          @ [Print (RunningCommand (sudo (''yum -y install '' @ remote))),
             Exec (sudo (''yum -y install '' @ remote)),
             StdinWrite (remote_password @ [CHR 0x0A]), StdinFlush, RecvExitStatus,
             Print (Output out), Print (ErrorStream err), Print (ExitCode exitcode)])"
    using privileged_trace by blast
  define tr3 where "tr3 = tr @ install_events today remote_password rpm (exitcode, out, err)"
  have step:
    "install_loop env tr (map (\<lambda>x. upload_dir_of today @ ''/'' @ path_name x) (rpm # rpms))
        remote_password
       = install_loop env tr3 (map (\<lambda>x. upload_dir_of today @ ''/'' @ path_name x) rpms)
           remote_password"
    using r
    by (simp add: yum_install_remote_def check_fail_def install_events_def install_command_def
          Let_def tr3_def remote_def)
  obtain results where results:
    "length results = length rpms"
    "install_loop env tr3 (map (\<lambda>x. upload_dir_of today @ ''/'' @ path_name x) rpms)
        remote_password
       = tr3 @ concat (map2 (install_events today remote_password) rpms results)"
    using Cons.IH by blast
  have "install_loop env tr (map (\<lambda>x. upload_dir_of today @ ''/'' @ path_name x) (rpm # rpms))
          remote_password
        = tr @ concat (map2 (install_events today remote_password) (rpm # rpms)
                         ((exitcode, out, err) # results))"
    unfolding step results(2) by (simp add: tr3_def)
  moreover have "length ((exitcode, out, err) # results) = length (rpm # rpms)"
    using results(1) by simp
  ultimately show ?case by blast
qed

text \<open>A run on a host that was reached, by its stages.\<close>

lemma install_remote_connected:
  assumes "connect_ok env (tr @ [Connect remote_ip remote_username remote_password 10])"
  shows "install_remote env today tr rpms remote_ip remote_username remote_password =
    (Inr True,
     install_loop env (upload_done env today tr rpms remote_ip remote_username remote_password)
        (map (\<lambda>x. upload_dir_of today @ ''/'' @ path_name x) rpms) remote_password
      @ [Print InstallComplete])"
  using assms
  by (simp add: install_remote_def remote_connect_def Let_def split_beta remote_command_def
      check_fail_def scp_files_def upload_done_def upload_call_def mkdir_done_def mkdir_call_def
      upload_dir_of_def)

lemma install_remote_installs:
  assumes "connect_ok env (tr @ [Connect remote_ip remote_username remote_password 10])"
  shows "\<exists>evs. snd (install_remote env today tr rpms remote_ip remote_username remote_password) =
           upload_done env today tr rpms remote_ip remote_username remote_password
             @ evs @ [Print InstallComplete]
         \<and> commands evs = map (install_command today) rpms"
proof -
  obtain evs where evs:
    "install_loop env (upload_done env today tr rpms remote_ip remote_username remote_password)
        (map (\<lambda>x. upload_dir_of today @ ''/'' @ path_name x) rpms) remote_password
       = upload_done env today tr rpms remote_ip remote_username remote_password @ evs"
    "commands evs = map (\<lambda>remote. sudo (''yum -y install '' @ remote))
                      (map (\<lambda>x. upload_dir_of today @ ''/'' @ path_name x) rpms)"
    using install_loop_commands by blast
  have "commands evs = map (install_command today) rpms"
    using evs(2) by (simp add: install_command_def comp_def)
  then show ?thesis
    using evs(1) install_remote_connected [OF assms] by simp
qed

lemma mkdir_done_commands:
  "commands (mkdir_done env today tr rpms remote_ip remote_username remote_password) =
     commands tr @ [''mkdir -p '' @ upload_dir_of today]"
  by (simp add: mkdir_done_def mkdir_call_def Let_def split_beta commands_append)

lemma upload_done_commands:
  "commands (upload_done env today tr rpms remote_ip remote_username remote_password) =
     commands tr @ [''mkdir -p '' @ upload_dir_of today]"
  by (simp add: upload_done_def upload_call_def Let_def commands_append mkdir_done_commands)

text \<open>
  Claim C1, as the code has it. On a host that was reached, a failed install does not
  end the run: after the staging directory command, one install command is sent for
  each artifact of the list, in the order of the list, which is the list handed to the
  upload. Each install is followed by its printed exit code and, when the exit code is
  not 0, by the notice of \<^verbatim>\<open>_check_fail\<close>; the next install comes after that. The
  value returned does not gather the outcomes of the installs: it is true whatever they
  are.
\<close>

theorem install_remote_attempts_all:
  assumes "connect_ok env (tr @ [Connect remote_ip remote_username remote_password 10])"
  shows "commands (snd (install_remote env today tr rpms remote_ip remote_username remote_password))
           = commands tr @ (''mkdir -p '' @ upload_dir_of today) # map (install_command today) rpms
         \<and> Put rpms (upload_dir_of today) True
             \<in> set (snd (install_remote env today tr rpms remote_ip remote_username remote_password))
         \<and> fst (install_remote env today tr rpms remote_ip remote_username remote_password)
             = Inr True
         \<and> (\<exists>results. length results = length rpms
               \<and> snd (install_remote env today tr rpms remote_ip remote_username remote_password)
                   = upload_done env today tr rpms remote_ip remote_username remote_password
                       @ concat (map2 (install_events today remote_password) rpms results)
                       @ [Print InstallComplete])"
proof -
  obtain evs where evs:
    "snd (install_remote env today tr rpms remote_ip remote_username remote_password) =
           upload_done env today tr rpms remote_ip remote_username remote_password
             @ evs @ [Print InstallComplete]"
    "commands evs = map (install_command today) rpms"
    using install_remote_installs [OF assms] by blast
  have "commands (snd (install_remote env today tr rpms remote_ip remote_username remote_password))
           = commands tr @ (''mkdir -p '' @ upload_dir_of today) # map (install_command today) rpms"
    using evs by (simp add: commands_append upload_done_commands)
  moreover have "Put rpms (upload_dir_of today) True
      \<in> set (upload_done env today tr rpms remote_ip remote_username remote_password)"
    by (simp add: upload_done_def upload_call_def Let_def)
  moreover have "\<exists>results. length results = length rpms
               \<and> snd (install_remote env today tr rpms remote_ip remote_username remote_password)
                   = upload_done env today tr rpms remote_ip remote_username remote_password
                       @ concat (map2 (install_events today remote_password) rpms results)
                       @ [Print InstallComplete]"
    using install_loop_events
      [of rpms env "upload_done env today tr rpms remote_ip remote_username remote_password"
        today remote_password]
      install_remote_connected [OF assms, of today rpms]
    by auto
  ultimately show ?thesis
    using evs(1) install_remote_connected [OF assms] by simp
qed

text \<open>
  A host on which \<^verbatim>\<open>sudo\<close> refuses every command: both artifacts are attempted, in
  order, and each install is followed by its exit code and the notice.
\<close>

theorem install_remote_attempts_all_witness:
  "connect_ok sudo_refused ([] @ [Connect ''192.168.5.5'' ''ckct'' ''secret'' 10])
   \<and> commands (snd (install_remote sudo_refused ''20240101'' [] two_rpms
                      ''192.168.5.5'' ''ckct'' ''secret''))
       = commands [] @ (''mkdir -p '' @ upload_dir_of ''20240101'')
           # map (install_command ''20240101'') two_rpms
   \<and> fst (install_remote sudo_refused ''20240101'' [] two_rpms ''192.168.5.5'' ''ckct'' ''secret'')
       = Inr True
   \<and> (\<exists>results. length results = length two_rpms
         \<and> snd (install_remote sudo_refused ''20240101'' [] two_rpms
                  ''192.168.5.5'' ''ckct'' ''secret'')
             = upload_done sudo_refused ''20240101'' [] two_rpms ''192.168.5.5'' ''ckct'' ''secret''
                 @ concat (map2 (install_events ''20240101'' ''secret'') two_rpms results)
                 @ [Print InstallComplete])"
proof -
  have h: "connect_ok sudo_refused ([] @ [Connect ''192.168.5.5'' ''ckct'' ''secret'' 10])"
    by (simp add: sudo_refused_def)
  show ?thesis
    using h install_remote_attempts_all [OF h, of "''20240101''" two_rpms] by blast
qed

text \<open>
  Claim C1 as it is stated makes the success of the host the conjunction of the
  outcomes of its installs. On the host where \<^verbatim>\<open>sudo\<close> refuses, \<^verbatim>\<open>mkdir\<close> exits with 0
  and both installs exit with 1, and \<^verbatim>\<open>install_remote\<close> returns true.
\<close>

theorem install_remote_success_counterexample:
  "exit_codes (snd (install_remote sudo_refused ''20240101'' [] two_rpms
                     ''192.168.5.5'' ''ckct'' ''secret'')) = [0, 1, 1]
   \<and> fst (install_remote sudo_refused ''20240101'' [] two_rpms ''192.168.5.5'' ''ckct'' ''secret'')
       = Inr True"
  by code_simp

text \<open>
  Claim C2, as the code has it. On a host that was reached, when the upload of the
  artifacts fails, the failure is recorded (the error is printed, then the notice of
  \<^verbatim>\<open>_check_fail\<close>) and the run goes on: what follows sends one privileged install
  command for each artifact of the host, in order.
\<close>

theorem install_remote_upload_failure:
  assumes "connect_ok env (tr @ [Connect remote_ip remote_username remote_password 10])"
    and "\<not> put_ok env (upload_call env today tr rpms remote_ip remote_username remote_password)"
  shows "\<exists>evs. snd (install_remote env today tr rpms remote_ip remote_username remote_password) =
           upload_call env today tr rpms remote_ip remote_username remote_password
             @ [Print ErrorSending, Print ThatDidntWork] @ evs @ [Print InstallComplete]
         \<and> commands evs = map (install_command today) rpms"
proof -
  have "upload_done env today tr rpms remote_ip remote_username remote_password =
          upload_call env today tr rpms remote_ip remote_username remote_password
            @ [Print ErrorSending, Print ThatDidntWork]"
    using assms(2) by (simp add: upload_done_def Let_def)
  then show ?thesis
    using install_remote_installs [OF assms(1), of today rpms] by simp
qed

theorem install_remote_upload_failure_witness:
  "connect_ok upload_refused ([] @ [Connect ''192.168.5.5'' ''ckct'' ''secret'' 10])
   \<and> \<not> put_ok upload_refused
         (upload_call upload_refused ''20240101'' [] two_rpms ''192.168.5.5'' ''ckct'' ''secret'')
   \<and> (\<exists>evs. snd (install_remote upload_refused ''20240101'' [] two_rpms
                    ''192.168.5.5'' ''ckct'' ''secret'') =
           upload_call upload_refused ''20240101'' [] two_rpms ''192.168.5.5'' ''ckct'' ''secret''
             @ [Print ErrorSending, Print ThatDidntWork] @ evs @ [Print InstallComplete]
         \<and> commands evs = map (install_command ''20240101'') two_rpms)"
proof -
  have h1: "connect_ok upload_refused ([] @ [Connect ''192.168.5.5'' ''ckct'' ''secret'' 10])"
    by (simp add: upload_refused_def)
  have h2: "\<not> put_ok upload_refused
         (upload_call upload_refused ''20240101'' [] two_rpms ''192.168.5.5'' ''ckct'' ''secret'')"
    by (simp add: upload_refused_def)
  show ?thesis
    using h1 h2 install_remote_upload_failure [OF h1 h2] by blast
qed

text \<open>
  Claim C2 as it is stated has the install phase skipped after a failed upload. On the
  host where the transfer fails, the error is recorded and both install commands are
  sent all the same.
\<close>

theorem install_remote_upload_failure_counterexample:
  "Print ErrorSending \<in> set (snd (install_remote upload_refused ''20240101'' [] two_rpms
                                   ''192.168.5.5'' ''ckct'' ''secret''))
   \<and> commands (snd (install_remote upload_refused ''20240101'' [] two_rpms
                      ''192.168.5.5'' ''ckct'' ''secret''))
       = [''mkdir -p installtool-20240101'',
          sudo ''yum -y install installtool-20240101/pkgA.rpm'',
          sudo ''yum -y install installtool-20240101/pkgB.rpm'']"
  by code_simp

text \<open>
  Claim C8. On a host that was reached, when the command that creates the staging
  directory exits with a status other than 0, the failure is recorded (the exit code is
  printed, then the notice of \<^verbatim>\<open>_check_fail\<close>) and the upload of the host's artifacts is
  attempted next.
\<close>

theorem install_remote_mkdir_failure:
  assumes "connect_ok env (tr @ [Connect remote_ip remote_username remote_password 10])"
    and "fst (exec_result env (mkdir_call today tr rpms remote_ip remote_username remote_password))
           \<noteq> 0"
  shows "\<exists>exitcode out err evs.
           exec_result env (mkdir_call today tr rpms remote_ip remote_username remote_password)
             = (exitcode, out, err)
           \<and> snd (install_remote env today tr rpms remote_ip remote_username remote_password) =
               mkdir_call today tr rpms remote_ip remote_username remote_password
                 @ [Print (Output out), Print (ErrorStream err), Print (ExitCode exitcode),
                    Print ThatDidntWork,
                    Print (SendingFiles rpms), Put rpms (upload_dir_of today) True]
                 @ evs"
proof -
  obtain exitcode out err where r:
    "exec_result env (mkdir_call today tr rpms remote_ip remote_username remote_password)
       = (exitcode, out, err)"
    by (cases "exec_result env (mkdir_call today tr rpms remote_ip remote_username remote_password)")
  then have "exitcode \<noteq> 0"
    using assms(2) by simp
  then have call: "upload_call env today tr rpms remote_ip remote_username remote_password =
      mkdir_call today tr rpms remote_ip remote_username remote_password
        @ [Print (Output out), Print (ErrorStream err), Print (ExitCode exitcode),
           Print ThatDidntWork,
           Print (SendingFiles rpms), Put rpms (upload_dir_of today) True]"
    using r by (simp add: upload_call_def mkdir_done_def Let_def)
  obtain evs where
    "snd (install_remote env today tr rpms remote_ip remote_username remote_password) =
           upload_done env today tr rpms remote_ip remote_username remote_password
             @ evs @ [Print InstallComplete]"
    using install_remote_installs [OF assms(1)] by blast
  then have "\<exists>evs'. snd (install_remote env today tr rpms remote_ip remote_username remote_password)
      = upload_call env today tr rpms remote_ip remote_username remote_password @ evs'"
    by (simp add: upload_done_def Let_def)
  then show ?thesis
    using r call by auto
qed

theorem install_remote_mkdir_failure_witness:
  "connect_ok mkdir_refused ([] @ [Connect ''192.168.5.5'' ''ckct'' ''secret'' 10])
   \<and> fst (exec_result mkdir_refused
            (mkdir_call ''20240101'' [] two_rpms ''192.168.5.5'' ''ckct'' ''secret'')) \<noteq> 0
   \<and> (\<exists>exitcode out err evs.
           exec_result mkdir_refused
               (mkdir_call ''20240101'' [] two_rpms ''192.168.5.5'' ''ckct'' ''secret'')
             = (exitcode, out, err)
           \<and> snd (install_remote mkdir_refused ''20240101'' [] two_rpms
                    ''192.168.5.5'' ''ckct'' ''secret'') =
               mkdir_call ''20240101'' [] two_rpms ''192.168.5.5'' ''ckct'' ''secret''
                 @ [Print (Output out), Print (ErrorStream err), Print (ExitCode exitcode),
                    Print ThatDidntWork,
                    Print (SendingFiles two_rpms), Put two_rpms (upload_dir_of ''20240101'') True]
                 @ evs)"
proof -
  have h1: "connect_ok mkdir_refused ([] @ [Connect ''192.168.5.5'' ''ckct'' ''secret'' 10])"
    by (simp add: mkdir_refused_def)
  have h2: "fst (exec_result mkdir_refused
            (mkdir_call ''20240101'' [] two_rpms ''192.168.5.5'' ''ckct'' ''secret'')) \<noteq> 0"
    by code_simp
  show ?thesis
    using h1 h2 install_remote_mkdir_failure [OF h1 h2] by blast
qed

text \<open>
  Claim C9, as the code has it. \<^verbatim>\<open>remote_privileged_command\<close> runs the command given
  behind \<^verbatim>\<open>sudo -S -p ''\<close>, which reads the password from standard input. Right after
  the command is started the password and a newline are written to its standard input
  and the stream is flushed; then the exit status is awaited and the output, the error
  stream and the exit code are printed. That is all it does: the password is written
  once, the stream is not closed, and the result is whether the exit code is 0.
\<close>

theorem remote_privileged_command_trace:
  "\<exists>exitcode out err.
     exec_result env (tr @ [Print (RunningCommand (sudo command)), Exec (sudo command),
                            StdinWrite (remote_password @ [CHR 0x0A]), StdinFlush, RecvExitStatus])
       = (exitcode, out, err)
     \<and> remote_privileged_command env tr command remote_password =
         (exitcode = 0,
          tr @ [Print (RunningCommand (sudo command)), Exec (sudo command),
                StdinWrite (remote_password @ [CHR 0x0A]), StdinFlush, RecvExitStatus,
                Print (Output out), Print (ErrorStream err), Print (ExitCode exitcode)])
     \<and> StdinClose \<notin> set (drop (length tr)
                            (snd (remote_privileged_command env tr command remote_password)))"
  using privileged_trace [of env tr command remote_password] by auto

text \<open>
  Claim C9 as it is stated has the stream closed for writing after the flush. The calls
  made on the stream are the write and the flush; no install command closes it.
\<close>

theorem remote_privileged_command_close_counterexample:
  "snd (remote_privileged_command sudo_refused [] ''yum -y install installtool-20240101/pkgA.rpm''
          ''secret'')
     = [Print (RunningCommand (sudo ''yum -y install installtool-20240101/pkgA.rpm'')),
        Exec (sudo ''yum -y install installtool-20240101/pkgA.rpm''),
        StdinWrite (''secret'' @ [CHR 0x0A]), StdinFlush, RecvExitStatus,
        Print (Output []), Print (ErrorStream []), Print (ExitCode 1)]
   \<and> StdinClose \<notin> set (snd (remote_privileged_command sudo_refused []
                                ''yum -y install installtool-20240101/pkgA.rpm'' ''secret''))"
  by code_simp

end
